theory Spec2Isabelle
  imports Main "HOL-Library.Word"
begin

section \<open>Python values\<close>

text \<open>
  The values handed to the encoder. A Python float is kept as its 64 bits: the encoder
  never computes with it, it only moves it into a token. A list is the sequence of its
  elements; a dict is the sequence of its items in iteration order (what
  \<^verbatim>\<open>pythonExpr.items()\<close> walks). \<open>PObject c\<close> is an instance of any other class,
  named \<open>c\<close> (a tuple, a set, bytes on Python 3, \<^verbatim>\<open>object()\<close>). An instance of a
  subclass of str, int, list, dict, float or complex is represented by the constructor
  of that built-in type, as \<^verbatim>\<open>isinstance\<close> sees it.
\<close>

type_synonym pyfloat = "64 word"

datatype pyval =
    PStr string
  | PInt int
  | PBool bool
  | PList "pyval list"
  | PDict "(pyval \<times> pyval) list"
  | PNone
  | PFloat pyfloat
  | PComplex pyfloat pyfloat
  | PObject string

text \<open>
  The type tests of \<^verbatim>\<open>DefaultWXFEncoder.encode\<close>, each returning the payload when
  the test succeeds. \<^verbatim>\<open>six.string_types\<close> is \<^verbatim>\<open>(str,)\<close> (\<^verbatim>\<open>(basestring,)\<close> on
  Python 2) and \<^verbatim>\<open>six.integer_types\<close> is \<^verbatim>\<open>(int,)\<close> (\<^verbatim>\<open>(int, long)\<close> on
  Python 2). In Python \<^verbatim>\<open>bool\<close> is a subclass of \<^verbatim>\<open>int\<close>, with
  \<^verbatim>\<open>True == 1\<close> and \<^verbatim>\<open>False == 0\<close>, so \<^verbatim>\<open>isinstance(True, six.integer_types)\<close>
  holds.
\<close>

fun isinstance_string_types :: "pyval \<Rightarrow> string option" where
  "isinstance_string_types (PStr str) = Some str"
| "isinstance_string_types _ = None"

fun isinstance_integer_types :: "pyval \<Rightarrow> int option" where
  "isinstance_integer_types (PInt i) = Some i"
| "isinstance_integer_types (PBool b) = Some (if b then 1 else 0)"
| "isinstance_integer_types _ = None"

fun isinstance_list :: "pyval \<Rightarrow> pyval list option" where
  "isinstance_list (PList xs) = Some xs"
| "isinstance_list _ = None"

fun isinstance_dict :: "pyval \<Rightarrow> (pyval \<times> pyval) list option" where
  "isinstance_dict (PDict kvs) = Some kvs"
| "isinstance_dict _ = None"

fun isinstance_float :: "pyval \<Rightarrow> pyfloat option" where
  "isinstance_float (PFloat x) = Some x"
| "isinstance_float _ = None"

fun isinstance_complex :: "pyval \<Rightarrow> (pyfloat \<times> pyfloat) option" where
  "isinstance_complex (PComplex re im) = Some (re, im)"
| "isinstance_complex _ = None"

text \<open>The name of a value's runtime type, as \<^verbatim>\<open>type(o).__name__\<close> gives it.\<close>

fun type_name :: "pyval \<Rightarrow> string" where
  "type_name (PStr _) = ''str''"
| "type_name (PInt _) = ''int''"
| "type_name (PBool _) = ''bool''"
| "type_name (PList _) = ''list''"
| "type_name (PDict _) = ''dict''"
| "type_name PNone = ''NoneType''"
| "type_name (PFloat _) = ''float''"
| "type_name (PComplex _ _) = ''complex''"
| "type_name (PObject c) = c"

section \<open>Tokens, exceptions and generators\<close>

text \<open>
  The tokens of \<^verbatim>\<open>wxfserializer.wxfexpr\<close>, by the constructors the encoder calls.
  A function and an association carry their arity; a rule has two parts.
\<close>

datatype wxfexpr =
    WXFExprString string
  | WXFExprInteger int
  | WXFExprReal pyfloat
  | WXFExprSymbol string
  | WXFExprFunction nat
  | WXFExprAssociation nat
  | WXFExprRule

text \<open>
  \<open>NotEncodedException\<close> and \<open>NotImplementedError\<close> are raised by the encoder itself;
  \<open>AttributeError\<close> is what Python raises for \<^verbatim>\<open>None.provide_wxfexpr\<close>;
  \<open>UnsupportedTypeError\<close> is the chain's error for a value no encoder claims, with the
  name of the value's type.
\<close>

datatype exn =
    NotEncodedException
  | NotImplementedError
  | AttributeError
  | UnsupportedTypeError string

text \<open>
  A generator, iterated to its end, is the list of the tokens it yielded and the way it
  ended: \<open>None\<close> when it returned, \<open>Some e\<close> when it raised \<open>e\<close> after those tokens.
\<close>

type_synonym gen = "wxfexpr list \<times> exn option"

section \<open>Encoders, providers and the store\<close>

text \<open>
  An encoder object has one slot, \<^verbatim>\<open>_provider\<close> (here \<open>provider\<close>), a reference to the
  provider it is registered with, \<open>None\<close> after \<^verbatim>\<open>__init__\<close>. Its class decides what
  \<^verbatim>\<open>encode\<close> does: the base class \<open>WXFEncoder\<close>, \<open>DefaultWXFEncoder\<close>, or a user's
  subclass whose \<^verbatim>\<open>encode\<close> is the generator function \<open>f\<close> (one that does not call
  back into the provider). A provider object holds the ordered list of its encoders.
  The store maps references to objects.
\<close>

type_synonym ref = nat

datatype encoder_class =
    WXFEncoder
  | DefaultWXFEncoder
  | CustomEncoder "pyval \<Rightarrow> gen"

record encoder_obj =
  cls :: encoder_class
  provider :: "ref option"

record provider_obj =
  encoders :: "ref list"

record store =
  encoder_at :: "ref \<Rightarrow> encoder_obj"
  provider_at :: "ref \<Rightarrow> provider_obj"

text \<open>A generator body runs in a store and returns its result and the store it leaves.\<close>

type_synonym body = "store \<Rightarrow> gen \<times> store"

definition yield :: "wxfexpr \<Rightarrow> body" where
  "yield t s = (([t], None), s)"

definition raise :: "exn \<Rightarrow> body" where
  "raise e s = (([], Some e), s)"

definition stop :: body where
  "stop s = (([], None), s)"

text \<open>One statement after another: the second runs only when the first did not raise.\<close>

definition seq :: "body \<Rightarrow> body \<Rightarrow> body" where
  "seq a b s =
     (case a s of
        ((ts, Some e), s') \<Rightarrow> ((ts, Some e), s')
      | ((ts, None), s') \<Rightarrow> (case b s' of ((us, r), s'') \<Rightarrow> ((ts @ us, r), s'')))"

text \<open>\<^verbatim>\<open>for x in xs: <body x>\<close>\<close>

fun for_each :: "'a list \<Rightarrow> ('a \<Rightarrow> body) \<Rightarrow> body" where
  "for_each [] f = stop"
| "for_each (x # xs) f = seq (f x) (for_each xs f)"

text \<open>
  \<^verbatim>\<open>WXFEncoder.__init__\<close>: \<^verbatim>\<open>self._provider = None\<close>.
\<close>

definition init :: "encoder_class \<Rightarrow> encoder_obj" where
  "init c = \<lparr>cls = c, provider = None\<rparr>"

text \<open>
  \<^verbatim>\<open>WXFEncoder.serialize\<close>:
  \<^verbatim>\<open>for sub in self._provider.provide_wxfexpr(o): yield sub\<close>.
  The provider's method \<^verbatim>\<open>provide_wxfexpr\<close> is the parameter \<open>prov\<close>. With
  \<^verbatim>\<open>_provider\<close> unset the attribute lookup on \<^verbatim>\<open>None\<close> raises when the generator is
  first advanced.
\<close>

type_synonym provide = "ref \<Rightarrow> pyval \<Rightarrow> body"

definition serialize :: "provide \<Rightarrow> ref \<Rightarrow> pyval \<Rightarrow> body" where
  "serialize prov self obj s =
     (case provider (encoder_at s self) of
        None \<Rightarrow> raise AttributeError s
      | Some p \<Rightarrow> prov p obj s)"

text \<open>
  \<^verbatim>\<open>DefaultWXFEncoder.encode\<close>, branch by branch in the order of the source.
\<close>

definition DefaultWXFEncoder_encode :: "provide \<Rightarrow> ref \<Rightarrow> pyval \<Rightarrow> body" where
  "DefaultWXFEncoder_encode prov self pythonExpr =
     (case isinstance_string_types pythonExpr of
        Some str \<Rightarrow> yield (WXFExprString str)
      | None \<Rightarrow>
     (case isinstance_integer_types pythonExpr of
        Some i \<Rightarrow> yield (WXFExprInteger i)
      | None \<Rightarrow>
     (case isinstance_list pythonExpr of
        Some xs \<Rightarrow>
          seq (yield (WXFExprFunction (length xs)))
         (seq (yield (WXFExprSymbol ''List''))
              (for_each xs (\<lambda>pyArg. serialize prov self pyArg)))
      | None \<Rightarrow>
     (case isinstance_dict pythonExpr of
        Some kvs \<Rightarrow>
          seq (yield (WXFExprAssociation (length kvs)))
              (for_each kvs (\<lambda>kv.
                 seq (yield WXFExprRule)
                (seq (serialize prov self (fst kv))
                     (serialize prov self (snd kv)))))
      | None \<Rightarrow>
     (if pythonExpr = PBool True then yield (WXFExprSymbol ''True'')
      else if pythonExpr = PBool False then yield (WXFExprSymbol ''False'')
      else if pythonExpr = PNone then yield (WXFExprSymbol ''None'')
      else
     (case isinstance_float pythonExpr of
        Some x \<Rightarrow> yield (WXFExprReal x)
      | None \<Rightarrow>
     (case isinstance_complex pythonExpr of
        Some (re, im) \<Rightarrow>
          seq (yield (WXFExprFunction 2))
         (seq (yield (WXFExprSymbol ''Complex''))
         (seq (yield (WXFExprReal re))
              (yield (WXFExprReal im))))
      | None \<Rightarrow> stop)))))))"

text \<open>
  \<^verbatim>\<open>encode\<close>, dispatched on the class of \<open>self\<close>: the base class raises
  \<^verbatim>\<open>NotImplementedError\<close>.
\<close>

definition encode :: "provide \<Rightarrow> ref \<Rightarrow> pyval \<Rightarrow> body" where
  "encode prov self obj s =
     (case cls (encoder_at s self) of
        WXFEncoder \<Rightarrow> raise NotImplementedError s
      | DefaultWXFEncoder \<Rightarrow> DefaultWXFEncoder_encode prov self obj s
      | CustomEncoder f \<Rightarrow> (f obj, s))"

text \<open>
  \<^verbatim>\<open>WXFEncoder._encode\<close>: the local \<^verbatim>\<open>value\<close> starts as \<^verbatim>\<open>None\<close> and is bound
  to each token as it is yielded; after the loop, \<^verbatim>\<open>if value is None: raise
  NotEncodedException\<close>. An exception of \<^verbatim>\<open>encode\<close> leaves the loop and the generator.
\<close>

definition underscore_encode :: "provide \<Rightarrow> ref \<Rightarrow> pyval \<Rightarrow> body" where
  "underscore_encode prov self obj s =
     (case encode prov self obj s of
        ((ts, Some e), s') \<Rightarrow> ((ts, Some e), s')
      | ((ts, None), s') \<Rightarrow>
          (let value = fold (\<lambda>t _. Some t) ts None
           in if value = None then ((ts, Some NotEncodedException), s')
              else ((ts, None), s')))"

section \<open>Token streams\<close>

text \<open>
  Generators iterated one after another, as nested \<^verbatim>\<open>for ... yield\<close> loops do: the
  tokens of each in turn, up to and including the first one that raises.
\<close>

fun gen_concat :: "gen list \<Rightarrow> gen" where
  "gen_concat [] = ([], None)"
| "gen_concat ((ts, Some e) # gs) = (ts, Some e)"
| "gen_concat ((ts, None) # gs) = (ts @ fst (gen_concat gs), snd (gen_concat gs))"

text \<open>
  The arity law of a token stream, read left to right against a stack of what is still
  expected: a subtree, or a rule pair. A function header of arity \<open>n\<close> opens \<open>n + 1\<close>
  subtrees (its head and its \<open>n\<close> arguments), an association header of arity \<open>n\<close>
  opens \<open>n\<close> rule pairs, a rule marker opens two subtrees, every other token is a leaf.
  The stream is right when the tokens and the expectations run out together.
\<close>

datatype expect = Subtree | RulePair

fun consume :: "expect list \<Rightarrow> wxfexpr list \<Rightarrow> bool" where
  "consume [] ts = (ts = [])"
| "consume (e # es) [] = False"
| "consume (Subtree # es) (WXFExprFunction n # ts) = consume (replicate (Suc n) Subtree @ es) ts"
| "consume (Subtree # es) (WXFExprAssociation n # ts) = consume (replicate n RulePair @ es) ts"
| "consume (Subtree # es) (WXFExprRule # ts) = consume (Subtree # Subtree # es) ts"
| "consume (Subtree # es) (t # ts) = consume es ts"
| "consume (RulePair # es) (WXFExprRule # ts) = consume (Subtree # Subtree # es) ts"
| "consume (RulePair # es) (t # ts) = False"

definition arity_correct :: "wxfexpr list \<Rightarrow> bool" where
  "arity_correct ts = consume [Subtree] ts"

text \<open>
  Every user encoder of the store keeps the arity law: what its \<^verbatim>\<open>encode\<close> yields,
  when it yields anything and returns, is one complete subtree.
\<close>

definition custom_encoders_arity_correct :: "store \<Rightarrow> bool" where
  "custom_encoders_arity_correct s =
     (\<forall>r f obj ts. cls (encoder_at s r) = CustomEncoder f \<longrightarrow> f obj = (ts, None) \<longrightarrow> ts \<noteq> []
        \<longrightarrow> arity_correct ts)"

section \<open>Building a store\<close>

text \<open>
  A store with no registration: every encoder is a fresh instance of the base class,
  every provider has no encoder. \<open>new_encoder\<close> constructs an encoder of a class.
\<close>

definition empty_store :: store where
  "empty_store = \<lparr>encoder_at = (\<lambda>r. init WXFEncoder), provider_at = (\<lambda>p. \<lparr>encoders = []\<rparr>)\<rparr>"

definition new_encoder :: "ref \<Rightarrow> encoder_class \<Rightarrow> store \<Rightarrow> store" where
  "new_encoder r c s = s\<lparr>encoder_at := (encoder_at s)(r := init c)\<rparr>"

text \<open>
  Modelled from the spec: registration (the provider's \<^verbatim>\<open>add_encoder\<close>, not among the
  sources) appends the encoder to the provider's list and binds the provider as the
  encoder's delegation target.
\<close>

definition add_encoder :: "ref \<Rightarrow> ref \<Rightarrow> store \<Rightarrow> store" where
  "add_encoder p e s =
     s\<lparr>encoder_at := (encoder_at s)(e := (encoder_at s e)\<lparr>provider := Some p\<rparr>),
       provider_at := (provider_at s)(p := \<lparr>encoders = encoders (provider_at s p) @ [e]\<rparr>)\<rparr>"

text \<open>Provider 0 with one encoder, the default encoder at reference 0.\<close>

definition default_store :: store where
  "default_store = add_encoder 0 0 (new_encoder 0 DefaultWXFEncoder empty_store)"

text \<open>A default encoder at reference 0, constructed and never registered.\<close>

definition unregistered_store :: store where
  "unregistered_store = new_encoder 0 DefaultWXFEncoder empty_store"

text \<open>
  Two user encoders for the objects the default encoder does not know. \<open>symbol_encode\<close>
  yields the class name as a symbol. \<open>header_only_encode\<close> yields a function header of
  arity 5 and nothing after it. Each store registers one of them in provider 0 at
  reference 0, and the default encoder after it at reference 1.
\<close>

definition symbol_encode :: "pyval \<Rightarrow> gen" where
  "symbol_encode obj = (case obj of PObject c \<Rightarrow> ([WXFExprSymbol c], None) | _ \<Rightarrow> ([], None))"

definition header_only_encode :: "pyval \<Rightarrow> gen" where
  "header_only_encode obj = (case obj of PObject c \<Rightarrow> ([WXFExprFunction 5], None) | _ \<Rightarrow> ([], None))"

definition custom_store :: "(pyval \<Rightarrow> gen) \<Rightarrow> store" where
  "custom_store f =
     add_encoder 0 1 (add_encoder 0 0
       (new_encoder 1 DefaultWXFEncoder (new_encoder 0 (CustomEncoder f) empty_store)))"

section \<open>The encoder chain\<close>

text \<open>
  Modelled from the spec: the provider class (\<^verbatim>\<open>WXFExprProvider\<close>) and its method
  \<^verbatim>\<open>provide_wxfexpr\<close> are not among the sources. The chain tries its encoders in
  registration order; an encoder that yields nothing and signals that it did not encode
  the value is passed over; the first one that yields a token gives the whole result;
  any other error ends the encoding; with no encoder left the chain fails with
  \<open>UnsupportedTypeError\<close> and the name of the value's type.
\<close>

fun chain_iter :: "provide \<Rightarrow> ref list \<Rightarrow> pyval \<Rightarrow> body" where
  "chain_iter prov [] obj s = raise (UnsupportedTypeError (type_name obj)) s"
| "chain_iter prov (e # es) obj s =
     (let r = underscore_encode prov e obj s
      in if fst r = ([], Some NotEncodedException) then chain_iter prov es obj (snd r)
         else r)"

lemma size_PList_elem: "x \<in> set xs \<Longrightarrow> size x < size (PList xs)"
  by (induction xs) auto

lemma size_PDict_item: "kv \<in> set kvs \<Longrightarrow> size (fst kv) < size (PDict kvs) \<and> size (snd kv) < size (PDict kvs)"
  by (induction kvs) auto

lemma for_each_cong:
  "(\<And>x. x \<in> set xs \<Longrightarrow> f x = g x) \<Longrightarrow> for_each xs f = for_each xs g"
  by (induction xs) auto

lemma serialize_cong:
  "(\<And>p t. P p x t = Q p x t) \<Longrightarrow> serialize P self x = serialize Q self x"
  by (auto simp: serialize_def fun_eq_iff split: option.splits)

lemma DefaultWXFEncoder_encode_cong:
  assumes "\<And>p x t. size x < size obj \<Longrightarrow> P p x t = Q p x t"
  shows "DefaultWXFEncoder_encode P self obj = DefaultWXFEncoder_encode Q self obj"
proof (cases obj)
  case (PList xs)
  have "for_each xs (\<lambda>pyArg. serialize P self pyArg) = for_each xs (\<lambda>pyArg. serialize Q self pyArg)"
    by (rule for_each_cong, rule serialize_cong) (simp add: assms PList size_PList_elem del: pyval.size)
  then show ?thesis by (simp add: DefaultWXFEncoder_encode_def PList)
next
  case (PDict kvs)
  have "for_each kvs (\<lambda>kv. seq (yield WXFExprRule) (seq (serialize P self (fst kv)) (serialize P self (snd kv))))
      = for_each kvs (\<lambda>kv. seq (yield WXFExprRule) (seq (serialize Q self (fst kv)) (serialize Q self (snd kv))))"
  proof (rule for_each_cong)
    fix kv assume kv: "kv \<in> set kvs"
    have "serialize P self (fst kv) = serialize Q self (fst kv)"
      by (rule serialize_cong) (simp add: assms PDict size_PDict_item [OF kv] del: pyval.size)
    moreover have "serialize P self (snd kv) = serialize Q self (snd kv)"
      by (rule serialize_cong) (simp add: assms PDict size_PDict_item [OF kv] del: pyval.size)
    ultimately show "seq (yield WXFExprRule) (seq (serialize P self (fst kv)) (serialize P self (snd kv)))
      = seq (yield WXFExprRule) (seq (serialize Q self (fst kv)) (serialize Q self (snd kv)))"
      by simp
  qed
  then show ?thesis by (simp add: DefaultWXFEncoder_encode_def PDict)
qed (simp_all add: DefaultWXFEncoder_encode_def)

lemma underscore_encode_cong:
  assumes "\<And>p x t. size x < size obj \<Longrightarrow> P p x t = Q p x t"
  shows "underscore_encode P self obj s = underscore_encode Q self obj s"
proof -
  have "encode P self obj s = encode Q self obj s"
    by (cases "cls (encoder_at s self)")
       (simp_all add: encode_def DefaultWXFEncoder_encode_cong [OF assms])
  then show ?thesis by (simp add: underscore_encode_def)
qed

lemma chain_iter_cong [fundef_cong]:
  assumes "es = es'" "obj = obj'" "s = s'"
    and "\<And>p x t. size x < size obj' \<Longrightarrow> P p x t = Q p x t"
  shows "chain_iter P es obj s = chain_iter Q es' obj' s'"
  unfolding assms(1-3)
proof (induction es' arbitrary: s')
  case Nil
  show ?case by simp
next
  case (Cons e es')
  show ?case
    by (simp add: underscore_encode_cong [OF assms(4)] Cons.IH Let_def)
qed

function provide_wxfexpr :: "ref \<Rightarrow> pyval \<Rightarrow> body" where
  "provide_wxfexpr p obj s =
     chain_iter provide_wxfexpr (encoders (provider_at s p)) obj s"
  by pat_completeness auto
termination
  by (relation "measure (\<lambda>(p, obj, s). size obj)") auto

section \<open>The store is left as it was\<close>

declare provide_wxfexpr.simps [simp del]

lemma yield_frame: "snd (yield t s) = s" by (simp add: yield_def)
lemma raise_frame: "snd (raise e s) = s" by (simp add: raise_def)
lemma stop_frame: "snd (stop s) = s" by (simp add: stop_def)

lemma seq_frame:
  assumes "\<And>t. snd (a t) = t" and "\<And>t. snd (b t) = t"
  shows "snd (seq a b s) = s"
proof -
  obtain ts r s1 where a: "a s = ((ts, r), s1)" by (metis surj_pair)
  obtain us q s2 where b: "b s1 = ((us, q), s2)" by (metis surj_pair)
  from assms(1) [of s] a have "s1 = s" by simp
  moreover from assms(2) [of s1] b have "s2 = s1" by simp
  ultimately show ?thesis using a b by (cases r) (simp_all add: seq_def)
qed

lemma for_each_frame:
  assumes "\<And>x t. x \<in> set xs \<Longrightarrow> snd (f x t) = t"
  shows "snd (for_each xs f s) = s"
  using assms
proof (induction xs arbitrary: s)
  case Nil
  show ?case by (simp add: stop_frame)
next
  case (Cons x xs)
  show ?case
    unfolding for_each.simps
    by (rule seq_frame) (simp_all add: Cons)
qed

lemma serialize_frame:
  assumes "\<And>p t. snd (prov p x t) = t"
  shows "snd (serialize prov self x s) = s"
  by (simp add: serialize_def assms raise_frame split: option.splits)

lemma DefaultWXFEncoder_encode_frame:
  assumes "\<And>p x t. size x < size obj \<Longrightarrow> snd (prov p x t) = t"
  shows "snd (DefaultWXFEncoder_encode prov self obj s) = s"
proof (cases obj)
  case (PList xs)
  have "snd (for_each xs (\<lambda>pyArg. serialize prov self pyArg) t) = t" for t
    by (rule for_each_frame, rule serialize_frame)
       (simp add: assms PList size_PList_elem del: pyval.size)
  then show ?thesis
    by (simp add: DefaultWXFEncoder_encode_def PList seq_frame yield_frame)
next
  case (PDict kvs)
  have "snd (for_each kvs (\<lambda>kv. seq (yield WXFExprRule)
          (seq (serialize prov self (fst kv)) (serialize prov self (snd kv)))) t) = t" for t
  proof (rule for_each_frame)
    fix kv t assume kv: "kv \<in> set kvs"
    have k: "snd (serialize prov self (fst kv) u) = u" for u
      by (rule serialize_frame) (simp add: assms PDict size_PDict_item [OF kv] del: pyval.size)
    have v: "snd (serialize prov self (snd kv) u) = u" for u
      by (rule serialize_frame) (simp add: assms PDict size_PDict_item [OF kv] del: pyval.size)
    show "snd (seq (yield WXFExprRule)
          (seq (serialize prov self (fst kv)) (serialize prov self (snd kv))) t) = t"
      by (intro seq_frame yield_frame k v)
  qed
  then show ?thesis
    by (simp add: DefaultWXFEncoder_encode_def PDict seq_frame yield_frame)
next
  case (PComplex re im)
  show ?thesis
    by (simp add: DefaultWXFEncoder_encode_def PComplex seq_frame yield_frame)
qed (simp_all add: DefaultWXFEncoder_encode_def yield_frame stop_frame)

lemma encode_frame:
  assumes "\<And>p x t. size x < size obj \<Longrightarrow> snd (prov p x t) = t"
  shows "snd (encode prov self obj s) = s"
proof -
  have "snd (DefaultWXFEncoder_encode prov self obj s) = s"
    by (rule DefaultWXFEncoder_encode_frame) (rule assms)
  then show ?thesis
    by (cases "cls (encoder_at s self)") (simp_all add: encode_def raise_frame)
qed

lemma underscore_encode_frame:
  assumes "\<And>p x t. size x < size obj \<Longrightarrow> snd (prov p x t) = t"
  shows "snd (underscore_encode prov self obj s) = s"
proof -
  have "snd (encode prov self obj s) = s"
    by (rule encode_frame) (rule assms)
  then show ?thesis
    by (auto simp: underscore_encode_def Let_def split: prod.splits option.splits)
qed

lemma chain_iter_frame:
  assumes "\<And>p x t. size x < size obj \<Longrightarrow> snd (prov p x t) = t"
  shows "snd (chain_iter prov es obj s) = s"
proof -
  have "snd (underscore_encode prov e obj t) = t" for e t
    by (rule underscore_encode_frame) (rule assms)
  then show ?thesis
    by (induction es arbitrary: s) (simp_all add: raise_frame Let_def)
qed

lemma provide_wxfexpr_frame: "snd (provide_wxfexpr p obj s) = s"
proof (induction p obj s rule: provide_wxfexpr.induct)
  case (1 p obj s)
  show ?case
    unfolding provide_wxfexpr.simps [of p obj s]
    by (rule chain_iter_frame) (rule 1)
qed

section \<open>What the loops yield\<close>

lemma seq_gen:
  assumes "\<And>t. snd (a t) = t" and "\<And>t. snd (b t) = t"
  shows "seq a b s = (gen_concat [fst (a s), fst (b s)], s)"
proof -
  obtain ts r where a: "a s = ((ts, r), s)" using assms(1) [of s] by (metis prod.collapse)
  obtain us q where b: "b s = ((us, q), s)" using assms(2) [of s] by (metis prod.collapse)
  show ?thesis by (cases r; cases q) (simp_all add: seq_def a b)
qed

lemma seq_yield: "seq (yield t) b s = ((t # fst (fst (b s)), snd (fst (b s))), snd (b s))"
  by (simp add: seq_def yield_def split: prod.splits)

lemma gen_concat_Cons: "gen_concat (g # gs) = gen_concat [g, gen_concat gs]"
proof -
  obtain ts r where g: "g = (ts, r)" by (cases g)
  show ?thesis by (cases r; cases "gen_concat gs"; cases "snd (gen_concat gs)") (auto simp: g)
qed

lemma for_each_gen:
  assumes "\<And>x t. x \<in> set xs \<Longrightarrow> snd (f x t) = t"
  shows "for_each xs f s = (gen_concat (map (\<lambda>x. fst (f x s)) xs), s)"
  using assms
proof (induction xs)
  case Nil
  show ?case by (simp add: stop_def)
next
  case (Cons x xs)
  have "for_each (x # xs) f s = (gen_concat [fst (f x s), fst (for_each xs f s)], s)"
    unfolding for_each.simps
    by (rule seq_gen) (simp_all add: Cons.prems for_each_frame)
  also have "fst (for_each xs f s) = gen_concat (map (\<lambda>x. fst (f x s)) xs)"
    by (simp add: Cons.IH Cons.prems)
  finally show ?case by (simp add: gen_concat_Cons [symmetric])
qed

lemma serialize_provide_frame: "snd (serialize provide_wxfexpr self x s) = s"
  by (rule serialize_frame) (rule provide_wxfexpr_frame)

lemma encode_PList:
  "DefaultWXFEncoder_encode provide_wxfexpr self (PList xs) s =
     ((WXFExprFunction (length xs) # WXFExprSymbol ''List'' #
         fst (gen_concat (map (\<lambda>x. fst (serialize provide_wxfexpr self x s)) xs)),
       snd (gen_concat (map (\<lambda>x. fst (serialize provide_wxfexpr self x s)) xs))), s)"
proof -
  have loop: "for_each xs (\<lambda>pyArg. serialize provide_wxfexpr self pyArg) t =
      (gen_concat (map (\<lambda>x. fst (serialize provide_wxfexpr self x t)) xs), t)" for t
    by (rule for_each_gen) (rule serialize_provide_frame)
  show ?thesis
    by (simp add: DefaultWXFEncoder_encode_def seq_yield loop)
qed

lemma encode_PDict:
  "DefaultWXFEncoder_encode provide_wxfexpr self (PDict kvs) s =
     ((WXFExprAssociation (length kvs) #
         fst (gen_concat (map (\<lambda>kv. gen_concat [([WXFExprRule], None),
                fst (serialize provide_wxfexpr self (fst kv) s),
                fst (serialize provide_wxfexpr self (snd kv) s)]) kvs)),
       snd (gen_concat (map (\<lambda>kv. gen_concat [([WXFExprRule], None),
                fst (serialize provide_wxfexpr self (fst kv) s),
                fst (serialize provide_wxfexpr self (snd kv) s)]) kvs))), s)"
proof -
  have inner: "seq (serialize provide_wxfexpr self k) (serialize provide_wxfexpr self v) t =
      (gen_concat [fst (serialize provide_wxfexpr self k t), fst (serialize provide_wxfexpr self v t)], t)" for k v t
    by (rule seq_gen) (rule serialize_provide_frame)+
  have entry: "seq (yield WXFExprRule) (seq (serialize provide_wxfexpr self k) (serialize provide_wxfexpr self v)) t =
      (gen_concat [([WXFExprRule], None), fst (serialize provide_wxfexpr self k t),
                   fst (serialize provide_wxfexpr self v t)], t)" for k v t
  proof -
    have "seq (yield WXFExprRule) (seq (serialize provide_wxfexpr self k) (serialize provide_wxfexpr self v)) t =
       (gen_concat [fst (yield WXFExprRule t),
          fst (seq (serialize provide_wxfexpr self k) (serialize provide_wxfexpr self v) t)], t)"
      by (rule seq_gen) (simp_all add: yield_frame inner)
    then show ?thesis
      by (simp add: inner yield_def gen_concat_Cons [symmetric])
  qed
  have loop: "for_each kvs (\<lambda>kv. seq (yield WXFExprRule)
         (seq (serialize provide_wxfexpr self (fst kv)) (serialize provide_wxfexpr self (snd kv)))) t =
      (gen_concat (map (\<lambda>kv. fst (seq (yield WXFExprRule)
         (seq (serialize provide_wxfexpr self (fst kv)) (serialize provide_wxfexpr self (snd kv))) t)) kvs), t)" for t
    by (rule for_each_gen) (simp add: entry)
  show ?thesis
    by (simp add: DefaultWXFEncoder_encode_def seq_yield loop inner)
qed

lemma gen_concat_returns:
  "(\<forall>g \<in> set gs. snd g = None) \<Longrightarrow> gen_concat gs = (concat (map fst gs), None)"
proof (induction gs)
  case Nil
  show ?case by simp
next
  case (Cons g gs)
  then show ?case by (cases g) simp
qed

lemma gen_concat_returned:
  "gen_concat gs = (ts, None) \<Longrightarrow> (\<forall>g \<in> set gs. snd g = None) \<and> ts = concat (map fst gs)"
proof (induction gs arbitrary: ts)
  case Nil
  then show ?case by simp
next
  case (Cons g gs)
  obtain us r where g: "g = (us, r)" by (cases g)
  show ?case
  proof (cases r)
    case None
    with Cons.prems g have "gen_concat gs = (fst (gen_concat gs), None)" and "ts = us @ fst (gen_concat gs)"
      by (auto simp: prod_eq_iff)
    with Cons.IH [of "fst (gen_concat gs)"] g None show ?thesis by simp
  next
    case (Some e)
    with Cons.prems g show ?thesis by simp
  qed
qed

section \<open>The arity law, by induction on the value\<close>

lemma consume_append:
  "consume stk ts \<Longrightarrow> consume (stk @ es) (ts @ rest) = consume es rest"
  by (induction stk ts rule: consume.induct) simp_all

lemma consume_replicate_concat:
  "(\<And>ts. ts \<in> set tss \<Longrightarrow> consume [e] ts) \<Longrightarrow>
     consume (replicate (length tss) e @ es) (concat tss @ rest) = consume es rest"
proof (induction tss)
  case Nil
  show ?case by simp
next
  case (Cons ts tss)
  have "consume ([e] @ (replicate (length tss) e @ es)) (ts @ (concat tss @ rest))
      = consume (replicate (length tss) e @ es) (concat tss @ rest)"
    by (rule consume_append) (simp add: Cons.prems)
  then show ?case by (simp add: Cons)
qed

lemma rule_pair_correct:
  assumes "arity_correct k" and "arity_correct v"
  shows "consume [RulePair] (WXFExprRule # k @ v)"
proof -
  have "consume ([Subtree] @ [Subtree]) (k @ v) = consume [Subtree] v"
    by (rule consume_append) (use assms(1) in \<open>simp add: arity_correct_def\<close>)
  with assms(2) show ?thesis by (simp add: arity_correct_def)
qed

lemma list_correct:
  assumes "\<And>ts. ts \<in> set tss \<Longrightarrow> arity_correct ts"
  shows "arity_correct (WXFExprFunction (length tss) # WXFExprSymbol ''List'' # concat tss)"
proof -
  have "consume (replicate (length tss) Subtree @ []) (concat tss @ []) = consume [] []"
    by (rule consume_replicate_concat) (use assms in \<open>simp add: arity_correct_def\<close>)
  then show ?thesis by (simp add: arity_correct_def)
qed

lemma dict_correct:
  assumes "\<And>ps. ps \<in> set pss \<Longrightarrow> consume [RulePair] ps"
  shows "arity_correct (WXFExprAssociation (length pss) # concat pss)"
proof -
  have "consume (replicate (length pss) RulePair @ []) (concat pss @ []) = consume [] []"
    by (rule consume_replicate_concat) (use assms in simp)
  then show ?thesis by (simp add: arity_correct_def)
qed

lemma complex_correct:
  "arity_correct [WXFExprFunction 2, WXFExprSymbol ''Complex'', WXFExprReal re, WXFExprReal im]"
  by (simp add: arity_correct_def numeral_2_eq_2)

lemma serialize_returned:
  assumes "fst (serialize prov self x s) = (us, None)"
  obtains p where "provider (encoder_at s self) = Some p" and "fst (prov p x s) = (us, None)"
  using assms by (auto simp: serialize_def raise_def split: option.splits)

lemma DefaultWXFEncoder_encode_arity:
  assumes sub: "\<And>x p us. size x < size obj \<Longrightarrow> fst (provide_wxfexpr p x s) = (us, None) \<Longrightarrow> arity_correct us"
    and run: "fst (DefaultWXFEncoder_encode provide_wxfexpr self obj s) = (ts, None)"
    and claimed: "ts \<noteq> []"
  shows "arity_correct ts"
proof (cases obj)
  case (PList xs)
  let ?gs = "map (\<lambda>x. fst (serialize provide_wxfexpr self x s)) xs"
  from run have ts: "ts = WXFExprFunction (length xs) # WXFExprSymbol ''List'' # fst (gen_concat ?gs)"
    and "snd (gen_concat ?gs) = None"
    by (simp_all add: PList encode_PList)
  then have "gen_concat ?gs = (fst (gen_concat ?gs), None)" by (simp add: prod_eq_iff)
  from gen_concat_returned [OF this]
  have ret: "\<forall>g \<in> set ?gs. snd g = None" and cat: "fst (gen_concat ?gs) = concat (map fst ?gs)"
    by simp_all
  have "arity_correct us" if "us \<in> set (map fst ?gs)" for us
  proof -
    from that obtain x where x: "x \<in> set xs" and us: "us = fst (fst (serialize provide_wxfexpr self x s))"
      by auto
    with ret have "fst (serialize provide_wxfexpr self x s) = (us, None)"
      by (simp add: prod_eq_iff)
    then obtain p where "fst (provide_wxfexpr p x s) = (us, None)"
      by (rule serialize_returned)
    moreover have "size x < size obj" using x by (simp add: PList size_PList_elem del: pyval.size)
    ultimately show ?thesis by (rule sub [rotated])
  qed
  then have "arity_correct (WXFExprFunction (length (map fst ?gs)) # WXFExprSymbol ''List'' # concat (map fst ?gs))"
    by (rule list_correct)
  then show ?thesis unfolding ts cat by simp
next
  case (PDict kvs)
  let ?ser = "\<lambda>x. fst (serialize provide_wxfexpr self x s)"
  let ?gs = "map (\<lambda>kv. gen_concat [([WXFExprRule], None), ?ser (fst kv), ?ser (snd kv)]) kvs"
  from run have ts: "ts = WXFExprAssociation (length kvs) # fst (gen_concat ?gs)"
    and "snd (gen_concat ?gs) = None"
    by (simp_all add: PDict encode_PDict)
  then have "gen_concat ?gs = (fst (gen_concat ?gs), None)" by (simp add: prod_eq_iff)
  from gen_concat_returned [OF this]
  have ret: "\<forall>g \<in> set ?gs. snd g = None" and cat: "fst (gen_concat ?gs) = concat (map fst ?gs)"
    by simp_all
  have "consume [RulePair] ps" if "ps \<in> set (map fst ?gs)" for ps
  proof -
    from that obtain kv where kv: "kv \<in> set kvs"
      and ps: "ps = fst (gen_concat [([WXFExprRule], None), ?ser (fst kv), ?ser (snd kv)])"
      by auto
    with ret have "gen_concat [([WXFExprRule], None), ?ser (fst kv), ?ser (snd kv)] = (ps, None)"
      by (simp add: prod_eq_iff)
    from gen_concat_returned [OF this]
    have k: "?ser (fst kv) = (fst (?ser (fst kv)), None)"
      and v: "?ser (snd kv) = (fst (?ser (snd kv)), None)"
      and ps': "ps = WXFExprRule # fst (?ser (fst kv)) @ fst (?ser (snd kv))"
      by (simp_all add: prod_eq_iff)
    from k obtain p where "fst (provide_wxfexpr p (fst kv) s) = (fst (?ser (fst kv)), None)"
      by (rule serialize_returned)
    moreover have "size (fst kv) < size obj"
      using size_PDict_item [OF kv] by (simp add: PDict del: pyval.size)
    ultimately have ka: "arity_correct (fst (?ser (fst kv)))" by (rule sub [rotated])
    from v obtain q where "fst (provide_wxfexpr q (snd kv) s) = (fst (?ser (snd kv)), None)"
      by (rule serialize_returned)
    moreover have "size (snd kv) < size obj"
      using size_PDict_item [OF kv] by (simp add: PDict del: pyval.size)
    ultimately have va: "arity_correct (fst (?ser (snd kv)))" by (rule sub [rotated])
    show ?thesis unfolding ps' using ka va by (rule rule_pair_correct)
  qed
  then have "arity_correct (WXFExprAssociation (length (map fst ?gs)) # concat (map fst ?gs))"
    by (rule dict_correct)
  then show ?thesis unfolding ts cat by simp
next
  case (PComplex re im)
  with run have "ts = [WXFExprFunction 2, WXFExprSymbol ''Complex'', WXFExprReal re, WXFExprReal im]"
    by (simp add: DefaultWXFEncoder_encode_def seq_yield yield_def)
  then show ?thesis by (simp add: complex_correct)
next
  case (PObject c)
  with run claimed show ?thesis by (simp add: DefaultWXFEncoder_encode_def stop_def)
next
  case (PBool b)
  with run show ?thesis
    by (auto simp: DefaultWXFEncoder_encode_def yield_def arity_correct_def)
qed (use run in \<open>auto simp: DefaultWXFEncoder_encode_def yield_def arity_correct_def\<close>)

lemma underscore_encode_returned:
  assumes "fst (underscore_encode prov self obj s) = (ts, None)"
  shows "fst (encode prov self obj s) = (ts, None) \<and> ts \<noteq> []"
  using assms
  by (cases "encode prov self obj s"; cases "fst (encode prov self obj s)"; cases "snd (fst (encode prov self obj s))"; cases ts)
     (auto simp: underscore_encode_def Let_def split: if_splits)

lemma chain_iter_result:
  assumes "\<And>e t. snd (underscore_encode prov e obj t) = t"
  shows "fst (chain_iter prov es obj s) = ([], Some (UnsupportedTypeError (type_name obj))) \<or>
         (\<exists>e \<in> set es. fst (chain_iter prov es obj s) = fst (underscore_encode prov e obj s))"
proof (induction es)
  case Nil
  show ?case by (simp add: raise_def)
next
  case (Cons e es)
  show ?case
  proof (cases "fst (underscore_encode prov e obj s) = ([], Some NotEncodedException)")
    case True
    then have "chain_iter prov (e # es) obj s = chain_iter prov es obj s"
      by (simp add: Let_def assms)
    with Cons show ?thesis by auto
  next
    case False
    then show ?thesis by (simp add: Let_def)
  qed
qed

lemma encode_arity:
  assumes sub: "\<And>x p us. size x < size obj \<Longrightarrow> fst (provide_wxfexpr p x s) = (us, None) \<Longrightarrow> arity_correct us"
    and ok: "custom_encoders_arity_correct s"
    and run: "fst (encode provide_wxfexpr self obj s) = (ts, None)"
    and claimed: "ts \<noteq> []"
  shows "arity_correct ts"
proof (cases "cls (encoder_at s self)")
  case WXFEncoder
  with run show ?thesis by (simp add: encode_def raise_def)
next
  case DefaultWXFEncoder
  with run have "fst (DefaultWXFEncoder_encode provide_wxfexpr self obj s) = (ts, None)"
    by (simp add: encode_def)
  with sub show ?thesis using claimed by (rule DefaultWXFEncoder_encode_arity)
next
  case (CustomEncoder f)
  with run have "f obj = (ts, None)" by (simp add: encode_def)
  with ok CustomEncoder claimed show ?thesis
    unfolding custom_encoders_arity_correct_def by blast
qed

lemma provide_wxfexpr_arity:
  "custom_encoders_arity_correct s \<Longrightarrow> fst (provide_wxfexpr p obj s) = (ts, None) \<Longrightarrow> arity_correct ts"
proof (induction p obj s arbitrary: ts rule: provide_wxfexpr.induct)
  case (1 p obj s)
  have sub: "arity_correct us" if "size x < size obj" and "fst (provide_wxfexpr q x s) = (us, None)" for x q us
    using that(1) "1.prems"(1) that(2) by (rule "1.IH")
  have frame: "snd (underscore_encode provide_wxfexpr e obj t) = t" for e t
    by (rule underscore_encode_frame) (rule provide_wxfexpr_frame)
  from "1.prems"(2) have run: "fst (chain_iter provide_wxfexpr (encoders (provider_at s p)) obj s) = (ts, None)"
    by (simp add: provide_wxfexpr.simps [of p obj s])
  with chain_iter_result [of provide_wxfexpr obj "encoders (provider_at s p)" s, OF frame]
  obtain e where "fst (underscore_encode provide_wxfexpr e obj s) = (ts, None)"
    by auto
  then have "fst (encode provide_wxfexpr e obj s) = (ts, None)" and "ts \<noteq> []"
    using underscore_encode_returned by blast+
  with sub "1.prems"(1) show ?case by (rule encode_arity)
qed

section \<open>The claims\<close>

text \<open>The definitions that evaluate a run on a concrete store.\<close>

lemmas run_defs =
  DefaultWXFEncoder_encode_def encode_def underscore_encode_def serialize_def
  seq_def yield_def stop_def raise_def init_def
  add_encoder_def new_encoder_def empty_store_def default_store_def

lemma fold_last_token: "fold (\<lambda>t _. Some t) ts a = (if ts = [] then a else Some (last ts))"
  by (induction ts arbitrary: a) simp_all

lemma underscore_encode_eq:
  "encode prov self obj s = ((ts, r), s') \<Longrightarrow>
   underscore_encode prov self obj s =
     ((ts, if r = None \<and> ts = [] then Some NotEncodedException else r), s')"
  by (cases r) (simp_all add: underscore_encode_def fold_last_token)

lemma symbol_store_custom_ok: "custom_encoders_arity_correct (custom_store symbol_encode)"
  by (auto simp: custom_encoders_arity_correct_def custom_store_def add_encoder_def new_encoder_def
      empty_store_def init_def symbol_encode_def arity_correct_def split: if_splits pyval.splits)

subsection \<open>C1: booleans\<close>

text \<open>
  Claim C1 says that a boolean is encoded as the symbol \<open>True\<close> or \<open>False\<close> and never as an
  integer token. The code tests \<^verbatim>\<open>isinstance(pythonExpr, six.integer_types)\<close> before
  \<^verbatim>\<open>pythonExpr is True\<close> and \<^verbatim>\<open>pythonExpr is False\<close>, and a Python boolean is an
  instance of \<^verbatim>\<open>int\<close>: for \<^verbatim>\<open>True\<close> and for \<^verbatim>\<open>False\<close> the default encoder yields
  exactly one integer token (1 and 0), whatever the provider and the store, and the two
  symbol branches are never reached by a boolean.
\<close>

theorem bool_encoded_as_integer:
  "DefaultWXFEncoder_encode prov self (PBool True) s = (([WXFExprInteger 1], None), s) \<and>
   DefaultWXFEncoder_encode prov self (PBool False) s = (([WXFExprInteger 0], None), s) \<and>
   fst (provide_wxfexpr 0 (PBool True) default_store) = ([WXFExprInteger 1], None)"
  by (simp add: provide_wxfexpr.simps run_defs)

subsection \<open>C2: declining a value\<close>

text \<open>
  Claim C2, as amended. When \<^verbatim>\<open>encode\<close> returns without yielding a token,
  \<^verbatim>\<open>_encode\<close> yields nothing and raises \<open>NotEncodedException\<close>. When \<^verbatim>\<open>encode\<close>
  yields at least one token and returns, \<^verbatim>\<open>_encode\<close> yields exactly those tokens and
  returns. When \<^verbatim>\<open>encode\<close> itself raises, \<^verbatim>\<open>_encode\<close> yields the tokens
  \<^verbatim>\<open>encode\<close> yielded up to then and raises the same error. A value that passes none
  of the tests of the default encoder makes its \<^verbatim>\<open>encode\<close> return without a token,
  so it is declined with \<open>NotEncodedException\<close>.
\<close>

theorem underscore_encode_outcome:
  "(encode prov self obj s = (([], None), s') \<longrightarrow>
      underscore_encode prov self obj s = (([], Some NotEncodedException), s')) \<and>
   (ts \<noteq> [] \<and> encode prov self obj s = ((ts, None), s') \<longrightarrow>
      underscore_encode prov self obj s = ((ts, None), s')) \<and>
   (encode prov self obj s = ((ts, Some e), s') \<longrightarrow>
      underscore_encode prov self obj s = ((ts, Some e), s')) \<and>
   (cls (encoder_at s self) = DefaultWXFEncoder \<and>
    isinstance_string_types obj = None \<and> isinstance_integer_types obj = None \<and>
    isinstance_list obj = None \<and> isinstance_dict obj = None \<and>
    obj \<noteq> PBool True \<and> obj \<noteq> PBool False \<and> obj \<noteq> PNone \<and>
    isinstance_float obj = None \<and> isinstance_complex obj = None \<longrightarrow>
      encode prov self obj s = (([], None), s) \<and>
      underscore_encode prov self obj s = (([], Some NotEncodedException), s))"
proof (intro conjI impI)
  assume "encode prov self obj s = (([], None), s')"
  from underscore_encode_eq [OF this]
  show "underscore_encode prov self obj s = (([], Some NotEncodedException), s')" by simp
next
  assume "ts \<noteq> [] \<and> encode prov self obj s = ((ts, None), s')"
  then have "ts \<noteq> []" and "encode prov self obj s = ((ts, None), s')" by simp_all
  from underscore_encode_eq [OF this(2)] this(1)
  show "underscore_encode prov self obj s = ((ts, None), s')" by simp
next
  assume "encode prov self obj s = ((ts, Some e), s')"
  from underscore_encode_eq [OF this]
  show "underscore_encode prov self obj s = ((ts, Some e), s')" by simp
next
  assume h: "cls (encoder_at s self) = DefaultWXFEncoder \<and>
    isinstance_string_types obj = None \<and> isinstance_integer_types obj = None \<and>
    isinstance_list obj = None \<and> isinstance_dict obj = None \<and>
    obj \<noteq> PBool True \<and> obj \<noteq> PBool False \<and> obj \<noteq> PNone \<and>
    isinstance_float obj = None \<and> isinstance_complex obj = None"
  then have e: "encode prov self obj s = (([], None), s)"
    by (simp add: encode_def DefaultWXFEncoder_encode_def stop_def)
  from underscore_encode_eq [OF e]
  have "underscore_encode prov self obj s = (([], Some NotEncodedException), s)" by simp
  with e show "encode prov self obj s = (([], None), s)"
    and "underscore_encode prov self obj s = (([], Some NotEncodedException), s)" by simp_all
qed

text \<open>
  The theorem at a value no test accepts, at an integer, and at a list handed to a default
  encoder that was never registered.
\<close>

theorem underscore_encode_outcome_witness:
  "(encode provide_wxfexpr 0 (PObject ''tuple'') default_store = (([], None), default_store) \<and>
    underscore_encode provide_wxfexpr 0 (PObject ''tuple'') default_store =
      (([], Some NotEncodedException), default_store)) \<and>
   ([WXFExprInteger 5] \<noteq> [] \<and>
    encode provide_wxfexpr 0 (PInt 5) default_store = (([WXFExprInteger 5], None), default_store) \<and>
    underscore_encode provide_wxfexpr 0 (PInt 5) default_store =
      (([WXFExprInteger 5], None), default_store)) \<and>
   (encode provide_wxfexpr 0 (PList [PInt 1]) unregistered_store =
      (([WXFExprFunction 1, WXFExprSymbol ''List''], Some AttributeError), unregistered_store) \<and>
    underscore_encode provide_wxfexpr 0 (PList [PInt 1]) unregistered_store =
      (([WXFExprFunction 1, WXFExprSymbol ''List''], Some AttributeError), unregistered_store)) \<and>
   (cls (encoder_at default_store 0) = DefaultWXFEncoder \<and>
    isinstance_string_types (PObject ''tuple'') = None \<and>
    isinstance_integer_types (PObject ''tuple'') = None \<and>
    isinstance_list (PObject ''tuple'') = None \<and> isinstance_dict (PObject ''tuple'') = None \<and>
    PObject ''tuple'' \<noteq> PBool True \<and> PObject ''tuple'' \<noteq> PBool False \<and> PObject ''tuple'' \<noteq> PNone \<and>
    isinstance_float (PObject ''tuple'') = None \<and> isinstance_complex (PObject ''tuple'') = None)"
proof -
  have a: "encode provide_wxfexpr 0 (PObject ''tuple'') default_store = (([], None), default_store)"
    by (simp add: run_defs)
  have b: "encode provide_wxfexpr 0 (PInt 5) default_store = (([WXFExprInteger 5], None), default_store)"
    by (simp add: run_defs)
  have c: "encode provide_wxfexpr 0 (PList [PInt 1]) unregistered_store =
      (([WXFExprFunction 1, WXFExprSymbol ''List''], Some AttributeError), unregistered_store)"
    by (simp add: run_defs unregistered_store_def)
  have d: "cls (encoder_at default_store 0) = DefaultWXFEncoder"
    by (simp add: run_defs)
  show ?thesis
    using a b c d
      underscore_encode_outcome [of provide_wxfexpr 0 "PObject ''tuple''" default_store default_store]
      underscore_encode_outcome [of provide_wxfexpr 0 "PInt 5" default_store default_store "[WXFExprInteger 5]"]
      underscore_encode_outcome [of provide_wxfexpr 0 "PList [PInt 1]" unregistered_store unregistered_store
        "[WXFExprFunction 1, WXFExprSymbol ''List'']" AttributeError]
    by simp
qed

text \<open>
  The claim as stated fails where \<^verbatim>\<open>encode\<close> raises. A default encoder that was never
  registered, given \<^verbatim>\<open>[1]\<close>, yields the function header and the symbol \<open>List\<close> and
  then raises \<open>AttributeError\<close> in \<^verbatim>\<open>serialize\<close>: \<^verbatim>\<open>encode\<close> has yielded two tokens
  and \<^verbatim>\<open>_encode\<close> raises. An encoder of the base class yields no token and
  \<^verbatim>\<open>_encode\<close> raises \<open>NotImplementedError\<close>, not \<open>NotEncodedException\<close>.
\<close>

theorem underscore_encode_counterexample:
  "fst (encode provide_wxfexpr 0 (PList [PInt 1]) unregistered_store) =
     ([WXFExprFunction 1, WXFExprSymbol ''List''], Some AttributeError) \<and>
   fst (underscore_encode provide_wxfexpr 0 (PList [PInt 1]) unregistered_store) =
     ([WXFExprFunction 1, WXFExprSymbol ''List''], Some AttributeError) \<and>
   fst (encode provide_wxfexpr 0 PNone empty_store) = ([], Some NotImplementedError) \<and>
   fst (underscore_encode provide_wxfexpr 0 PNone empty_store) = ([], Some NotImplementedError)"
  by (simp add: run_defs unregistered_store_def)

subsection \<open>C3: lists\<close>

text \<open>
  Claim C3. For a list of \<open>N\<close> elements the default encoder yields a function header of
  arity \<open>N\<close>, the symbol \<open>List\<close>, and then what \<^verbatim>\<open>serialize\<close> yields for each element,
  in the order of the list, one generator after another (so up to the first element whose
  encoding raises). When the encoding of every element returns, the tokens are the header,
  the symbol and the concatenation of the elements' tokens. \<^verbatim>\<open>encode([])\<close> yields the
  header of arity 0 and the symbol, and the chain with the default encoder yields for
  \<^verbatim>\<open>[1, [2, 3]]\<close> the seven tokens in depth-first order.
\<close>

theorem list_encoding:
  "fst (DefaultWXFEncoder_encode provide_wxfexpr self (PList xs) s) =
     (WXFExprFunction (length xs) # WXFExprSymbol ''List'' #
        fst (gen_concat (map (\<lambda>x. fst (serialize provide_wxfexpr self x s)) xs)),
      snd (gen_concat (map (\<lambda>x. fst (serialize provide_wxfexpr self x s)) xs))) \<and>
   ((\<forall>x \<in> set xs. snd (fst (serialize provide_wxfexpr self x s)) = None) \<longrightarrow>
    fst (DefaultWXFEncoder_encode provide_wxfexpr self (PList xs) s) =
     (WXFExprFunction (length xs) # WXFExprSymbol ''List'' #
        concat (map (\<lambda>x. fst (fst (serialize provide_wxfexpr self x s))) xs), None)) \<and>
   fst (DefaultWXFEncoder_encode provide_wxfexpr self (PList []) s) =
     ([WXFExprFunction 0, WXFExprSymbol ''List''], None) \<and>
   fst (provide_wxfexpr 0 (PList [PInt 1, PList [PInt 2, PInt 3]]) default_store) =
     ([WXFExprFunction 2, WXFExprSymbol ''List'', WXFExprInteger 1,
       WXFExprFunction 2, WXFExprSymbol ''List'', WXFExprInteger 2, WXFExprInteger 3], None)"
proof (intro conjI impI)
  show "fst (DefaultWXFEncoder_encode provide_wxfexpr self (PList xs) s) =
     (WXFExprFunction (length xs) # WXFExprSymbol ''List'' #
        fst (gen_concat (map (\<lambda>x. fst (serialize provide_wxfexpr self x s)) xs)),
      snd (gen_concat (map (\<lambda>x. fst (serialize provide_wxfexpr self x s)) xs)))"
    by (simp add: encode_PList)
next
  assume "\<forall>x \<in> set xs. snd (fst (serialize provide_wxfexpr self x s)) = None"
  then have "gen_concat (map (\<lambda>x. fst (serialize provide_wxfexpr self x s)) xs) =
      (concat (map fst (map (\<lambda>x. fst (serialize provide_wxfexpr self x s)) xs)), None)"
    by (intro gen_concat_returns) simp
  then show "fst (DefaultWXFEncoder_encode provide_wxfexpr self (PList xs) s) =
     (WXFExprFunction (length xs) # WXFExprSymbol ''List'' #
        concat (map (\<lambda>x. fst (fst (serialize provide_wxfexpr self x s))) xs), None)"
    by (simp add: encode_PList comp_def)
next
  show "fst (DefaultWXFEncoder_encode provide_wxfexpr self (PList []) s) =
     ([WXFExprFunction 0, WXFExprSymbol ''List''], None)"
    by (simp add: encode_PList)
next
  show "fst (provide_wxfexpr 0 (PList [PInt 1, PList [PInt 2, PInt 3]]) default_store) =
     ([WXFExprFunction 2, WXFExprSymbol ''List'', WXFExprInteger 1,
       WXFExprFunction 2, WXFExprSymbol ''List'', WXFExprInteger 2, WXFExprInteger 3], None)"
    by (simp add: provide_wxfexpr.simps run_defs)
qed

text \<open>
  The theorem at \<^verbatim>\<open>[1, [2, 3]]\<close> for the default encoder registered in provider 0.
\<close>

theorem list_encoding_witness:
  "(fst (serialize provide_wxfexpr 0 (PInt 1) default_store) = ([WXFExprInteger 1], None) \<and>
    fst (serialize provide_wxfexpr 0 (PList [PInt 2, PInt 3]) default_store) =
      ([WXFExprFunction 2, WXFExprSymbol ''List'', WXFExprInteger 2, WXFExprInteger 3], None)) \<and>
   fst (DefaultWXFEncoder_encode provide_wxfexpr 0 (PList [PInt 1, PList [PInt 2, PInt 3]]) default_store) =
     ([WXFExprFunction 2, WXFExprSymbol ''List'', WXFExprInteger 1,
       WXFExprFunction 2, WXFExprSymbol ''List'', WXFExprInteger 2, WXFExprInteger 3], None)"
proof -
  have s1: "fst (serialize provide_wxfexpr 0 (PInt 1) default_store) = ([WXFExprInteger 1], None)"
    by (simp add: provide_wxfexpr.simps run_defs)
  have s2: "fst (serialize provide_wxfexpr 0 (PList [PInt 2, PInt 3]) default_store) =
      ([WXFExprFunction 2, WXFExprSymbol ''List'', WXFExprInteger 2, WXFExprInteger 3], None)"
    by (simp add: provide_wxfexpr.simps run_defs)
  have h: "\<forall>x \<in> set [PInt 1, PList [PInt 2, PInt 3]].
      snd (fst (serialize provide_wxfexpr 0 x default_store)) = None"
    by (simp add: s1 s2)
  have "fst (DefaultWXFEncoder_encode provide_wxfexpr 0 (PList [PInt 1, PList [PInt 2, PInt 3]]) default_store) =
     (WXFExprFunction (length [PInt 1, PList [PInt 2, PInt 3]]) # WXFExprSymbol ''List'' #
        concat (map (\<lambda>x. fst (fst (serialize provide_wxfexpr 0 x default_store)))
          [PInt 1, PList [PInt 2, PInt 3]]), None)"
    using list_encoding [of 0 "[PInt 1, PList [PInt 2, PInt 3]]" default_store] h by blast
  then show ?thesis by (simp add: s1 s2)
qed

subsection \<open>C4: dicts\<close>

text \<open>
  Claim C4. For a dict of \<open>N\<close> entries the default encoder yields an association header of
  arity \<open>N\<close> and then, entry by entry in iteration order, a rule marker, what
  \<^verbatim>\<open>serialize\<close> yields for the key and what it yields for the value (up to the first
  encoding that raises). When every key and value encoding returns, the tokens are the
  header followed by rule marker, key tokens and value tokens of each entry.
  \<^verbatim>\<open>encode({})\<close> yields the association header of arity 0 and nothing else.
\<close>

theorem dict_encoding:
  "fst (DefaultWXFEncoder_encode provide_wxfexpr self (PDict kvs) s) =
     (WXFExprAssociation (length kvs) #
        fst (gen_concat (map (\<lambda>kv. gen_concat [([WXFExprRule], None),
               fst (serialize provide_wxfexpr self (fst kv) s),
               fst (serialize provide_wxfexpr self (snd kv) s)]) kvs)),
      snd (gen_concat (map (\<lambda>kv. gen_concat [([WXFExprRule], None),
               fst (serialize provide_wxfexpr self (fst kv) s),
               fst (serialize provide_wxfexpr self (snd kv) s)]) kvs))) \<and>
   ((\<forall>kv \<in> set kvs. snd (fst (serialize provide_wxfexpr self (fst kv) s)) = None \<and>
                     snd (fst (serialize provide_wxfexpr self (snd kv) s)) = None) \<longrightarrow>
    fst (DefaultWXFEncoder_encode provide_wxfexpr self (PDict kvs) s) =
     (WXFExprAssociation (length kvs) #
        concat (map (\<lambda>kv. WXFExprRule # fst (fst (serialize provide_wxfexpr self (fst kv) s)) @
                                        fst (fst (serialize provide_wxfexpr self (snd kv) s))) kvs), None)) \<and>
   fst (DefaultWXFEncoder_encode provide_wxfexpr self (PDict []) s) = ([WXFExprAssociation 0], None) \<and>
   fst (provide_wxfexpr 0 (PDict []) default_store) = ([WXFExprAssociation 0], None)"
proof (intro conjI impI)
  show "fst (DefaultWXFEncoder_encode provide_wxfexpr self (PDict kvs) s) =
     (WXFExprAssociation (length kvs) #
        fst (gen_concat (map (\<lambda>kv. gen_concat [([WXFExprRule], None),
               fst (serialize provide_wxfexpr self (fst kv) s),
               fst (serialize provide_wxfexpr self (snd kv) s)]) kvs)),
      snd (gen_concat (map (\<lambda>kv. gen_concat [([WXFExprRule], None),
               fst (serialize provide_wxfexpr self (fst kv) s),
               fst (serialize provide_wxfexpr self (snd kv) s)]) kvs)))"
    unfolding encode_PDict by simp
next
  let ?ser = "\<lambda>x. fst (serialize provide_wxfexpr self x s)"
  let ?gs = "map (\<lambda>kv. gen_concat [([WXFExprRule], None), ?ser (fst kv), ?ser (snd kv)]) kvs"
  assume all: "\<forall>kv \<in> set kvs. snd (?ser (fst kv)) = None \<and> snd (?ser (snd kv)) = None"
  have entry: "gen_concat [([WXFExprRule], None), ?ser (fst kv), ?ser (snd kv)] =
      (WXFExprRule # fst (?ser (fst kv)) @ fst (?ser (snd kv)), None)" if "kv \<in> set kvs" for kv
  proof -
    have "gen_concat [([WXFExprRule], None), ?ser (fst kv), ?ser (snd kv)] =
      (concat (map fst [([WXFExprRule], None), ?ser (fst kv), ?ser (snd kv)]), None)"
      by (rule gen_concat_returns) (use all that in simp)
    then show ?thesis by simp
  qed
  have "gen_concat ?gs = (concat (map fst ?gs), None)"
    by (rule gen_concat_returns) (use entry in auto)
  also have "map fst ?gs = map (\<lambda>kv. WXFExprRule # fst (?ser (fst kv)) @ fst (?ser (snd kv))) kvs"
    using entry by (simp del: gen_concat.simps)
  finally show "fst (DefaultWXFEncoder_encode provide_wxfexpr self (PDict kvs) s) =
     (WXFExprAssociation (length kvs) #
        concat (map (\<lambda>kv. WXFExprRule # fst (?ser (fst kv)) @ fst (?ser (snd kv))) kvs), None)"
    unfolding encode_PDict by simp
next
  show "fst (DefaultWXFEncoder_encode provide_wxfexpr self (PDict []) s) = ([WXFExprAssociation 0], None)"
    unfolding encode_PDict by simp
next
  show "fst (provide_wxfexpr 0 (PDict []) default_store) = ([WXFExprAssociation 0], None)"
    by (simp add: provide_wxfexpr.simps run_defs)
qed

text \<open>
  The theorem at \<^verbatim>\<open>{'a': [None]}\<close> for the default encoder registered in provider 0.
\<close>

theorem dict_encoding_witness:
  "(fst (serialize provide_wxfexpr 0 (PStr ''a'') default_store) = ([WXFExprString ''a''], None) \<and>
    fst (serialize provide_wxfexpr 0 (PList [PNone]) default_store) =
      ([WXFExprFunction 1, WXFExprSymbol ''List'', WXFExprSymbol ''None''], None)) \<and>
   fst (DefaultWXFEncoder_encode provide_wxfexpr 0 (PDict [(PStr ''a'', PList [PNone])]) default_store) =
     ([WXFExprAssociation 1, WXFExprRule, WXFExprString ''a'',
       WXFExprFunction 1, WXFExprSymbol ''List'', WXFExprSymbol ''None''], None)"
proof -
  have s1: "fst (serialize provide_wxfexpr 0 (PStr ''a'') default_store) = ([WXFExprString ''a''], None)"
    by (simp add: provide_wxfexpr.simps run_defs)
  have s2: "fst (serialize provide_wxfexpr 0 (PList [PNone]) default_store) =
      ([WXFExprFunction 1, WXFExprSymbol ''List'', WXFExprSymbol ''None''], None)"
    by (simp add: provide_wxfexpr.simps run_defs)
  have h: "\<forall>kv \<in> set [(PStr ''a'', PList [PNone])].
      snd (fst (serialize provide_wxfexpr 0 (fst kv) default_store)) = None \<and>
      snd (fst (serialize provide_wxfexpr 0 (snd kv) default_store)) = None"
    by (simp add: s1 s2)
  have "fst (DefaultWXFEncoder_encode provide_wxfexpr 0 (PDict [(PStr ''a'', PList [PNone])]) default_store) =
     (WXFExprAssociation (length [(PStr ''a'', PList [PNone])]) #
        concat (map (\<lambda>kv. WXFExprRule # fst (fst (serialize provide_wxfexpr 0 (fst kv) default_store)) @
                                        fst (fst (serialize provide_wxfexpr 0 (snd kv) default_store)))
          [(PStr ''a'', PList [PNone])]), None)"
    using dict_encoding [of 0 "[(PStr ''a'', PList [PNone])]" default_store] h by blast
  then show ?thesis by (simp add: s1 s2)
qed

subsection \<open>C5: the arity law\<close>

text \<open>
  Claim C5, as amended. In a store whose user encoders keep the arity law, for every value
  the default encoder claims (it yields a token) and whose encoding returns without
  raising, the token stream is arity-correct: it is one complete subtree in which every
  function header of arity \<open>N\<close> is followed by \<open>N + 1\<close> subtrees, every association header
  of arity \<open>N\<close> by \<open>N\<close> rule pairs, and every rule marker by two subtrees.
\<close>

theorem arity_law:
  assumes "custom_encoders_arity_correct s"
    and "fst (DefaultWXFEncoder_encode provide_wxfexpr self obj s) = (ts, None)"
    and "ts \<noteq> []"
  shows "arity_correct ts"
proof -
  have "arity_correct us" if "fst (provide_wxfexpr p x s) = (us, None)" for x p us
    using assms(1) that by (rule provide_wxfexpr_arity)
  then show ?thesis using assms(2,3) by (rule DefaultWXFEncoder_encode_arity)
qed

text \<open>
  The theorem at \<^verbatim>\<open>[Foo(), {'k': (1+2j)}]\<close>, where a user encoder registered ahead of
  the default encoder encodes the object as a symbol.
\<close>

theorem arity_law_witness:
  "(custom_encoders_arity_correct (custom_store symbol_encode) \<and>
    fst (DefaultWXFEncoder_encode provide_wxfexpr 1
           (PList [PObject ''Foo'', PDict [(PStr ''k'', PComplex 1 2)]]) (custom_store symbol_encode)) =
      ([WXFExprFunction 2, WXFExprSymbol ''List'', WXFExprSymbol ''Foo'',
        WXFExprAssociation 1, WXFExprRule, WXFExprString ''k'',
        WXFExprFunction 2, WXFExprSymbol ''Complex'', WXFExprReal 1, WXFExprReal 2], None) \<and>
    [WXFExprFunction 2, WXFExprSymbol ''List'', WXFExprSymbol ''Foo'',
        WXFExprAssociation 1, WXFExprRule, WXFExprString ''k'',
        WXFExprFunction 2, WXFExprSymbol ''Complex'', WXFExprReal 1, WXFExprReal 2] \<noteq> []) \<and>
   arity_correct [WXFExprFunction 2, WXFExprSymbol ''List'', WXFExprSymbol ''Foo'',
        WXFExprAssociation 1, WXFExprRule, WXFExprString ''k'',
        WXFExprFunction 2, WXFExprSymbol ''Complex'', WXFExprReal 1, WXFExprReal 2]"
proof -
  have run: "fst (DefaultWXFEncoder_encode provide_wxfexpr 1
           (PList [PObject ''Foo'', PDict [(PStr ''k'', PComplex 1 2)]]) (custom_store symbol_encode)) =
      ([WXFExprFunction 2, WXFExprSymbol ''List'', WXFExprSymbol ''Foo'',
        WXFExprAssociation 1, WXFExprRule, WXFExprString ''k'',
        WXFExprFunction 2, WXFExprSymbol ''Complex'', WXFExprReal 1, WXFExprReal 2], None)"
    by (simp add: provide_wxfexpr.simps run_defs custom_store_def symbol_encode_def)
  show ?thesis
    using symbol_store_custom_ok run arity_law [OF symbol_store_custom_ok run]
    by simp
qed

text \<open>
  The claim as stated fails for a claimed value whose encoding does not finish, and for one
  that contains a value encoded by a user encoder that breaks the law. The default encoder
  claims \<^verbatim>\<open>[object()]\<close>, yields the header of arity 1 and the symbol \<open>List\<close>, and the
  chain then fails on the element: the stream stops one subtree short. With a user encoder
  that answers the object by a function header of arity 5 alone, the encoding of the same
  list returns and its stream is not arity-correct.
\<close>

theorem arity_law_counterexample:
  "fst (DefaultWXFEncoder_encode provide_wxfexpr 0 (PList [PObject ''object'']) default_store) =
     ([WXFExprFunction 1, WXFExprSymbol ''List''], Some (UnsupportedTypeError ''object'')) \<and>
   \<not> arity_correct [WXFExprFunction 1, WXFExprSymbol ''List''] \<and>
   fst (DefaultWXFEncoder_encode provide_wxfexpr 1 (PList [PObject ''object''])
          (custom_store header_only_encode)) =
     ([WXFExprFunction 1, WXFExprSymbol ''List'', WXFExprFunction 5], None) \<and>
   \<not> arity_correct [WXFExprFunction 1, WXFExprSymbol ''List'', WXFExprFunction 5]"
proof (intro conjI)
  show "fst (DefaultWXFEncoder_encode provide_wxfexpr 0 (PList [PObject ''object'']) default_store) =
     ([WXFExprFunction 1, WXFExprSymbol ''List''], Some (UnsupportedTypeError ''object''))"
    by (simp add: provide_wxfexpr.simps run_defs)
  show "\<not> arity_correct [WXFExprFunction 1, WXFExprSymbol ''List'']"
    by (simp add: arity_correct_def)
  show "fst (DefaultWXFEncoder_encode provide_wxfexpr 1 (PList [PObject ''object''])
          (custom_store header_only_encode)) =
     ([WXFExprFunction 1, WXFExprSymbol ''List'', WXFExprFunction 5], None)"
    by (simp add: provide_wxfexpr.simps run_defs custom_store_def header_only_encode_def)
  show "\<not> arity_correct [WXFExprFunction 1, WXFExprSymbol ''List'', WXFExprFunction 5]"
    by (simp add: arity_correct_def eval_nat_numeral)
qed

subsection \<open>C6: re-entrant delegation\<close>

text \<open>
  Claim C6. For an encoder bound to a provider, \<^verbatim>\<open>serialize(v)\<close> is what the provider's
  \<^verbatim>\<open>provide_wxfexpr(v)\<close> gives: the same tokens, the same end, the same store, for
  every implementation \<open>prov\<close> of the provider's method.
\<close>

theorem serialize_is_provide:
  "provider (encoder_at s self) = Some p \<Longrightarrow> serialize prov self obj s = prov p obj s"
  by (simp add: serialize_def)

text \<open>
  The theorem for the default encoder registered in provider 0, with the chain as the
  provider's method.
\<close>

theorem serialize_is_provide_witness:
  "provider (encoder_at default_store 0) = Some 0 \<and>
   serialize provide_wxfexpr 0 (PList [PInt 1, PList [PInt 2, PInt 3]]) default_store =
     provide_wxfexpr 0 (PList [PInt 1, PList [PInt 2, PInt 3]]) default_store \<and>
   fst (serialize provide_wxfexpr 0 (PList [PInt 1, PList [PInt 2, PInt 3]]) default_store) =
     ([WXFExprFunction 2, WXFExprSymbol ''List'', WXFExprInteger 1,
       WXFExprFunction 2, WXFExprSymbol ''List'', WXFExprInteger 2, WXFExprInteger 3], None)"
proof -
  have h: "provider (encoder_at default_store 0) = Some 0"
    by (simp add: run_defs)
  have e: "fst (provide_wxfexpr 0 (PList [PInt 1, PList [PInt 2, PInt 3]]) default_store) =
     ([WXFExprFunction 2, WXFExprSymbol ''List'', WXFExprInteger 1,
       WXFExprFunction 2, WXFExprSymbol ''List'', WXFExprInteger 2, WXFExprInteger 3], None)"
    by (simp add: provide_wxfexpr.simps run_defs)
  show ?thesis
    using h e serialize_is_provide [OF h, of provide_wxfexpr "PList [PInt 1, PList [PInt 2, PInt 3]]"]
    by simp
qed

subsection \<open>C7: None\<close>

text \<open>
  Claim C7. \<^verbatim>\<open>encode(None)\<close> yields exactly one token, the symbol \<open>None\<close>: from the
  default encoder for every provider and store, and from the chain that holds it.
\<close>

theorem encode_None:
  "DefaultWXFEncoder_encode prov self PNone s = (([WXFExprSymbol ''None''], None), s) \<and>
   fst (provide_wxfexpr 0 PNone default_store) = ([WXFExprSymbol ''None''], None)"
  by (simp add: provide_wxfexpr.simps run_defs)

subsection \<open>C8: determinism\<close>

text \<open>
  Claim C8. Two runs on the same value and the same chain configuration yield the same
  token sequence and end the same way: a run of the chain, of \<^verbatim>\<open>encode\<close> or of the
  default encoder, started in the store the first run left, gives the result of the first
  run.
\<close>

theorem two_runs_agree:
  "fst (provide_wxfexpr p obj (snd (provide_wxfexpr p obj s))) = fst (provide_wxfexpr p obj s) \<and>
   fst (encode provide_wxfexpr self obj (snd (encode provide_wxfexpr self obj s))) =
     fst (encode provide_wxfexpr self obj s) \<and>
   fst (DefaultWXFEncoder_encode provide_wxfexpr self obj
          (snd (DefaultWXFEncoder_encode provide_wxfexpr self obj s))) =
     fst (DefaultWXFEncoder_encode provide_wxfexpr self obj s)"
proof -
  have "snd (encode provide_wxfexpr self obj s) = s"
    by (rule encode_frame) (rule provide_wxfexpr_frame)
  moreover have "snd (DefaultWXFEncoder_encode provide_wxfexpr self obj s) = s"
    by (rule DefaultWXFEncoder_encode_frame) (rule provide_wxfexpr_frame)
  ultimately show ?thesis by (simp add: provide_wxfexpr_frame)
qed

subsection \<open>C9: no encode call changes the store\<close>

text \<open>
  Claim C9. \<^verbatim>\<open>encode\<close>, \<^verbatim>\<open>_encode\<close>, \<^verbatim>\<open>serialize\<close> and the chain's
  \<^verbatim>\<open>provide_wxfexpr\<close> leave the store as it was, for every value and however they end;
  in particular the \<^verbatim>\<open>_provider\<close> slot of every encoder is the same before and after.
\<close>

theorem encode_leaves_store:
  "snd (encode provide_wxfexpr self obj s) = s \<and>
   snd (underscore_encode provide_wxfexpr self obj s) = s \<and>
   snd (serialize provide_wxfexpr self obj s) = s \<and>
   snd (provide_wxfexpr p obj s) = s \<and>
   provider (encoder_at (snd (encode provide_wxfexpr self obj s)) r) = provider (encoder_at s r) \<and>
   provider (encoder_at (snd (underscore_encode provide_wxfexpr self obj s)) r) = provider (encoder_at s r) \<and>
   provider (encoder_at (snd (serialize provide_wxfexpr self obj s)) r) = provider (encoder_at s r)"
proof -
  have "snd (encode provide_wxfexpr self obj s) = s"
    by (rule encode_frame) (rule provide_wxfexpr_frame)
  moreover have "snd (underscore_encode provide_wxfexpr self obj s) = s"
    by (rule underscore_encode_frame) (rule provide_wxfexpr_frame)
  ultimately show ?thesis by (simp add: provide_wxfexpr_frame serialize_provide_frame)
qed

subsection \<open>C10: an encoder that was never registered\<close>

text \<open>
  Claim C10. For an encoder whose \<^verbatim>\<open>_provider\<close> is still \<^verbatim>\<open>None\<close>, iterating
  \<^verbatim>\<open>serialize(v)\<close> yields no token and raises (\<open>AttributeError\<close>), for every value and
  every provider method.
\<close>

theorem serialize_unregistered:
  "provider (encoder_at s self) = None \<Longrightarrow> serialize prov self obj s = (([], Some AttributeError), s)"
  by (simp add: serialize_def raise_def)

text \<open>
  The theorem for a default encoder as \<^verbatim>\<open>__init__\<close> leaves it.
\<close>

theorem serialize_unregistered_witness:
  "provider (init DefaultWXFEncoder) = None \<and>
   provider (encoder_at unregistered_store 0) = None \<and>
   serialize provide_wxfexpr 0 (PInt 1) unregistered_store = (([], Some AttributeError), unregistered_store)"
proof -
  have h: "provider (encoder_at unregistered_store 0) = None"
    by (simp add: unregistered_store_def new_encoder_def init_def)
  show ?thesis
    using h serialize_unregistered [OF h, of provide_wxfexpr "PInt 1"]
    by (simp add: init_def)
qed

end
